theory Spec2Isabelle
  imports Main "HOL-Library.Multiset"
begin

section \<open>JavaScript numbers\<close>

text \<open>
  The ledger of \<^verbatim>\<open>src/app/(tabs)/index.jsx\<close> computes with JavaScript numbers, which are
  IEEE 754 binary64 values. A finite number is modelled exactly, as \<open>Fin m e\<close> standing for
  \<open>m * 2 ^ e\<close>, kept in the normal form \<open>m\<close> odd (or \<open>Fin 0 0\<close> for zero). The sign of zero
  is not modelled: the program never observes it.
\<close>

datatype jsnum = NaN | PosInf | NegInf | Fin int int

text \<open>The number of binary digits of a positive integer.\<close>

function bit_length :: "int \<Rightarrow> int" where
  "bit_length n = (if n \<le> 0 then 0 else 1 + bit_length (n div 2))"
  by pat_completeness auto
termination
  by (relation "measure nat") auto

declare bit_length.simps [simp del]

function norm_fin :: "int \<Rightarrow> int \<Rightarrow> jsnum" where
  "norm_fin m e =
     (if m = 0 then Fin 0 0
      else if even m then norm_fin (m div 2) (e + 1)
      else Fin m e)"
  by pat_completeness auto
termination
  by (relation "measure (\<lambda>(m, e). nat \<bar>m\<bar>)") auto

declare norm_fin.simps [simp del]

text \<open>
  \<open>round_ratio neg p q\<close> is the binary64 value nearest to the rational \<open>p / q\<close> (for
  \<open>0 \<le> p\<close> and \<open>0 < q\<close>), negated when \<open>neg\<close> holds: 53 significant bits, the least
  quantum \<open>2 ^ - 1074\<close>, ties to the even significand, and an infinity from \<open>2 ^ 1024\<close> on.
\<close>

definition round_ratio :: "bool \<Rightarrow> int \<Rightarrow> int \<Rightarrow> jsnum" where
  "round_ratio neg p q =
     (if p = 0 then Fin 0 0
      else let e0 = bit_length p - bit_length q;
               e = (if (if 0 \<le> e0 then q * 2 ^ nat e0 \<le> p else q \<le> p * 2 ^ nat (- e0))
                    then e0 else e0 - 1);
               s = max (e - 52) (- 1074);
               num = (if s < 0 then p * 2 ^ nat (- s) else p);
               den = (if s < 0 then q else q * 2 ^ nat s);
               f = num div den;
               r = num mod den;
               n = (if 2 * r < den then f
                    else if den < 2 * r then f + 1
                    else if even f then f else f + 1)
           in if 1024 < bit_length n + s then (if neg then NegInf else PosInf)
              else norm_fin (if neg then - n else n) s)"

definition fin_round :: "int \<Rightarrow> int \<Rightarrow> jsnum" where
  "fin_round m e = round_ratio (m < 0) (\<bar>m\<bar> * 2 ^ nat e) (2 ^ nat (- e))"

text \<open>The operators \<^verbatim>\<open>+\<close> and \<^verbatim>\<open>-\<close> on numbers: the exact result, rounded.\<close>

fun js_add :: "jsnum \<Rightarrow> jsnum \<Rightarrow> jsnum" where
  "js_add NaN _ = NaN"
| "js_add _ NaN = NaN"
| "js_add PosInf NegInf = NaN"
| "js_add NegInf PosInf = NaN"
| "js_add PosInf _ = PosInf"
| "js_add _ PosInf = PosInf"
| "js_add NegInf _ = NegInf"
| "js_add _ NegInf = NegInf"
| "js_add (Fin m1 e1) (Fin m2 e2) =
     (let e = min e1 e2
      in fin_round (m1 * 2 ^ nat (e1 - e) + m2 * 2 ^ nat (e2 - e)) e)"

fun js_neg :: "jsnum \<Rightarrow> jsnum" where
  "js_neg NaN = NaN"
| "js_neg PosInf = NegInf"
| "js_neg NegInf = PosInf"
| "js_neg (Fin m e) = Fin (- m) e"

definition js_sub :: "jsnum \<Rightarrow> jsnum \<Rightarrow> jsnum" where
  "js_sub a b = js_add a (js_neg b)"

definition js_zero :: jsnum where
  "js_zero = Fin 0 0"

text \<open>A finite number greater than zero.\<close>

fun finite_positive :: "jsnum \<Rightarrow> bool" where
  "finite_positive (Fin m e) = (0 < m)"
| "finite_positive _ = False"

subsection \<open>parseFloat\<close>

text \<open>
  \<^verbatim>\<open>parseFloat\<close> skips leading white space, reads the longest prefix that is a decimal
  literal (an optional sign, then \<^verbatim>\<open>Infinity\<close> or digits with an optional fraction and an
  optional exponent) and returns its value rounded to binary64; with no such prefix the
  result is \<^verbatim>\<open>NaN\<close>. Strings are byte strings here, so only the ASCII white space is
  skipped.
\<close>

definition is_digit :: "char \<Rightarrow> bool" where
  "is_digit c = (c \<in> set ''0123456789'')"

definition is_space :: "char \<Rightarrow> bool" where
  "is_space c = (c \<in> set [CHR '' '', CHR 0x09, CHR 0x0A, CHR 0x0B, CHR 0x0C, CHR 0x0D])"

definition digit_val :: "char \<Rightarrow> int" where
  "digit_val c = int (of_char c) - 48"

definition digits_val :: "string \<Rightarrow> int" where
  "digits_val ds = foldl (\<lambda>acc c. 10 * acc + digit_val c) 0 ds"

definition parse_exponent :: "string \<Rightarrow> int" where
  "parse_exponent s =
     (case s of
        [] \<Rightarrow> 0
      | c # t \<Rightarrow>
          if c = CHR ''e'' \<or> c = CHR ''E'' then
            (case t of
               [] \<Rightarrow> 0
             | sg # u \<Rightarrow>
                 if sg = CHR ''-'' then - digits_val (takeWhile is_digit u)
                 else if sg = CHR ''+'' then digits_val (takeWhile is_digit u)
                 else digits_val (takeWhile is_digit t))
          else 0)"

definition parse_unsigned :: "bool \<Rightarrow> string \<Rightarrow> jsnum" where
  "parse_unsigned neg s =
     (if take 8 s = ''Infinity'' then (if neg then NegInf else PosInf)
      else let ip = takeWhile is_digit s;
               r1 = dropWhile is_digit s;
               has_dot = (case r1 of [] \<Rightarrow> False | c # _ \<Rightarrow> c = CHR ''.'');
               fp = (if has_dot then takeWhile is_digit (tl r1) else []);
               r2 = (if has_dot then dropWhile is_digit (tl r1) else r1)
           in if ip = [] \<and> fp = [] then NaN
              else let x = parse_exponent r2 - int (length fp);
                       d = digits_val (ip @ fp)
                   in if 0 \<le> x then round_ratio neg (d * 10 ^ nat x) 1
                      else round_ratio neg d (10 ^ nat (- x)))"

definition parseFloat :: "string \<Rightarrow> jsnum" where
  "parseFloat s =
     (case dropWhile is_space s of
        [] \<Rightarrow> NaN
      | c # t \<Rightarrow>
          if c = CHR ''-'' then parse_unsigned True t
          else if c = CHR ''+'' then parse_unsigned False t
          else parse_unsigned False (c # t))"

subsection \<open>Integers as decimal strings\<close>

text \<open>
  \<^verbatim>\<open>Date.now().toString()\<close>: the clock reading is an integer number of milliseconds, and
  the string of an integer of that size is its decimal numeral.
\<close>

function digits_of :: "int \<Rightarrow> string" where
  "digits_of n =
     (if n < 10 then [''0123456789'' ! nat n]
      else digits_of (n div 10) @ [''0123456789'' ! nat (n mod 10)])"
  by pat_completeness auto
termination
  by (relation "measure nat") auto

declare digits_of.simps [simp del]

definition toString :: "int \<Rightarrow> string" where
  "toString n = (if n < 0 then CHR ''-'' # digits_of (- n) else digits_of n)"

section \<open>Data model\<close>

text \<open>
  The form and a stored transaction have the same fields; in the form the amount is the
  text typed by the user, in a transaction it is a number and there is an \<^verbatim>\<open>id\<close>. A field
  that is absent (\<^verbatim>\<open>undefined\<close>) and the empty string are both falsy, and the program only
  tests fields for truthiness or compares them with string literals, so both are the
  empty string here.
\<close>

record 'a entry =
  date :: string
  description :: string
  category :: string
  amount :: 'a
  paymentMethod :: string
  type :: string

type_synonym Form = "string entry"

record Expense = "jsnum entry" +
  id' :: string

text \<open>Values handed to \<^verbatim>\<open>JSON.stringify\<close> and returned by \<^verbatim>\<open>JSON.parse\<close>.\<close>

datatype json =
  JNull | JBool bool | JNum jsnum | JStr string | JArr "json list" | JObj "(string \<times> json) list"

definition expense_json :: "Expense \<Rightarrow> json" where
  "expense_json x =
     JObj [(''id'', JStr (id' x)), (''date'', JStr (date x)),
           (''description'', JStr (description x)), (''category'', JStr (category x)),
           (''amount'', JNum (amount x)), (''paymentMethod'', JStr (paymentMethod x)),
           (''type'', JStr (type x))]"

datatype js_error = StorageError | SyntaxError

text \<open>
  The JSON library is a parameter of the model: \<open>stringify\<close> writes a value as text and
  \<open>parse\<close> reads one, or throws.
\<close>

record JSON =
  stringify :: "json \<Rightarrow> string"
  parse :: "string \<Rightarrow> js_error + json"

text \<open>
  The key-value store: its entries, and for which keys a read or a write is rejected.
\<close>

record AsyncStorage =
  items :: "string \<rightharpoonup> string"
  getItem_rejects :: "string \<Rightarrow> bool"
  setItem_rejects :: "string \<Rightarrow> bool"

text \<open>
  The state of the component (the \<^verbatim>\<open>useState\<close> cells), the store, and what the program
  has shown in alerts and written to the console.
\<close>

record world =
  form :: Form
  expenses :: "Expense list"
  editingId :: "string option"
  permanentBalance :: jsnum
  permanentTotalIncome :: jsnum
  storage :: AsyncStorage
  alerts :: "(string \<times> string) list"
  console :: "string list"

definition STORAGE_KEY :: string where
  "STORAGE_KEY = ''expenses''"

definition BALANCE_KEY :: string where
  "BALANCE_KEY = ''permanentBalance''"

definition TOTAL_INCOME_KEY :: string where
  "TOTAL_INCOME_KEY = ''totalIncome''"

section \<open>Effects\<close>

text \<open>
  An awaited operation either rejects with an error or resolves, in both cases with the
  world as it has become.
\<close>

type_synonym 'a promise = "(js_error \<times> world) + ('a \<times> world)"

definition Alert_alert :: "string \<Rightarrow> string \<Rightarrow> world \<Rightarrow> world" where
  "Alert_alert title message w = w\<lparr>alerts := alerts w @ [(title, message)]\<rparr>"

definition console_error :: "string \<Rightarrow> world \<Rightarrow> world" where
  "console_error message w = w\<lparr>console := console w @ [message]\<rparr>"

definition AsyncStorage_setItem :: "string \<Rightarrow> string \<Rightarrow> world \<Rightarrow> unit promise" where
  "AsyncStorage_setItem k v w =
     (if setItem_rejects (storage w) k then Inl (StorageError, w)
      else Inr ((), w\<lparr>storage := (storage w)\<lparr>items := (items (storage w))(k \<mapsto> v)\<rparr>\<rparr>))"

definition AsyncStorage_getItem :: "string \<Rightarrow> world \<Rightarrow> string option promise" where
  "AsyncStorage_getItem k w =
     (if getItem_rejects (storage w) k then Inl (StorageError, w)
      else Inr (items (storage w) k, w))"

text \<open>
  \<^verbatim>\<open>Promise.all\<close> over operations that have all been started: each runs, and the result
  rejects with the first rejection.
\<close>

fun Promise_all :: "(world \<Rightarrow> unit promise) list \<Rightarrow> world \<Rightarrow> unit promise" where
  "Promise_all [] w = Inr ((), w)"
| "Promise_all (p # ps) w =
     (case p w of
        Inr (_, w1) \<Rightarrow> Promise_all ps w1
      | Inl (error, w1) \<Rightarrow>
          (case Promise_all ps w1 of
             Inr (_, w2) \<Rightarrow> Inl (error, w2)
           | Inl (_, w2) \<Rightarrow> Inl (error, w2)))"

section \<open>Async storage helper functions\<close>

definition saveExpensesToStorage :: "JSON \<Rightarrow> Expense list \<Rightarrow> world \<Rightarrow> unit promise" where
  "saveExpensesToStorage J xs w =
     (case AsyncStorage_setItem STORAGE_KEY (stringify J (JArr (map expense_json xs))) w of
        Inr r \<Rightarrow> Inr r
      | Inl (error, w1) \<Rightarrow> Inr ((), console_error ''Failed to save expenses:'' w1))"

definition loadExpensesFromStorage :: "JSON \<Rightarrow> world \<Rightarrow> json promise" where
  "loadExpensesFromStorage J w =
     (case (case AsyncStorage_getItem STORAGE_KEY w of
              Inl x \<Rightarrow> Inl x
            | Inr (storedExpenses, w1) \<Rightarrow>
                (case storedExpenses of
                   None \<Rightarrow> Inr (JArr [], w1)
                 | Some s \<Rightarrow>
                     if s = [] then Inr (JArr [], w1)
                     else (case parse J s of
                             Inl error \<Rightarrow> Inl (error, w1)
                           | Inr v \<Rightarrow> Inr (v, w1))))
      of
        Inr r \<Rightarrow> Inr r
      | Inl (error, w1) \<Rightarrow> Inr (JArr [], console_error ''Failed to load expenses:'' w1))"

definition saveBalanceToStorage :: "JSON \<Rightarrow> jsnum \<Rightarrow> world \<Rightarrow> unit promise" where
  "saveBalanceToStorage J balance w =
     (case AsyncStorage_setItem BALANCE_KEY (stringify J (JNum balance)) w of
        Inr r \<Rightarrow> Inr r
      | Inl (error, w1) \<Rightarrow> Inr ((), console_error ''Failed to save balance:'' w1))"

definition loadBalanceFromStorage :: "JSON \<Rightarrow> world \<Rightarrow> json promise" where
  "loadBalanceFromStorage J w =
     (case (case AsyncStorage_getItem BALANCE_KEY w of
              Inl x \<Rightarrow> Inl x
            | Inr (storedBalance, w1) \<Rightarrow>
                (case storedBalance of
                   None \<Rightarrow> Inr (JNum js_zero, w1)
                 | Some s \<Rightarrow>
                     if s = [] then Inr (JNum js_zero, w1)
                     else (case parse J s of
                             Inl error \<Rightarrow> Inl (error, w1)
                           | Inr v \<Rightarrow> Inr (v, w1))))
      of
        Inr r \<Rightarrow> Inr r
      | Inl (error, w1) \<Rightarrow> Inr (JNum js_zero, console_error ''Failed to load balance:'' w1))"

definition saveTotalIncomeToStorage :: "JSON \<Rightarrow> jsnum \<Rightarrow> world \<Rightarrow> unit promise" where
  "saveTotalIncomeToStorage J totalIncome w =
     (case AsyncStorage_setItem TOTAL_INCOME_KEY (stringify J (JNum totalIncome)) w of
        Inr r \<Rightarrow> Inr r
      | Inl (error, w1) \<Rightarrow> Inr ((), console_error ''Failed to save total income:'' w1))"

definition loadTotalIncomeFromStorage :: "JSON \<Rightarrow> world \<Rightarrow> json promise" where
  "loadTotalIncomeFromStorage J w =
     (case (case AsyncStorage_getItem TOTAL_INCOME_KEY w of
              Inl x \<Rightarrow> Inl x
            | Inr (storedTotalIncome, w1) \<Rightarrow>
                (case storedTotalIncome of
                   None \<Rightarrow> Inr (JNum js_zero, w1)
                 | Some s \<Rightarrow>
                     if s = [] then Inr (JNum js_zero, w1)
                     else (case parse J s of
                             Inl error \<Rightarrow> Inl (error, w1)
                           | Inr v \<Rightarrow> Inr (v, w1))))
      of
        Inr r \<Rightarrow> Inr r
      | Inl (error, w1) \<Rightarrow>
          Inr (JNum js_zero, console_error ''Failed to load total income:'' w1))"

section \<open>The component\<close>

definition empty_form :: Form where
  "empty_form =
     \<lparr>date = '''', description = '''', category = '''', amount = '''', paymentMethod = '''',
      type = ''expense''\<rparr>"

text \<open>
  \<^verbatim>\<open>deleteExpense\<close> shows a dialog with the buttons Cancel and Delete; \<open>pressed\<close> is the
  text of the button the user chooses, and only Delete has a handler.
\<close>

definition deleteExpense_onPress :: "JSON \<Rightarrow> string \<Rightarrow> world \<Rightarrow> world" where
  "deleteExpense_onPress J i w =
     (let updatedExpenses = filter (\<lambda>expense. id' expense \<noteq> i) (expenses w)
      in case saveExpensesToStorage J updatedExpenses w of
           Inr (_, w1) \<Rightarrow>
             Alert_alert ''Success'' ''Transaction deleted from history''
               (w1\<lparr>expenses := updatedExpenses\<rparr>)
         | Inl (error, w1) \<Rightarrow>
             Alert_alert ''Error'' ''Failed to delete transaction''
               (console_error ''Delete error:'' w1))"

definition deleteExpense :: "JSON \<Rightarrow> string \<Rightarrow> string \<Rightarrow> world \<Rightarrow> world" where
  "deleteExpense J i pressed w =
     (let w0 = Alert_alert ''Delete Transaction''
                 ''Are you sure you want to delete this transaction? The balance will remain unchanged.''
                 w
      in if pressed = ''Delete'' then deleteExpense_onPress J i w0 else w0)"

text \<open>
  \<^verbatim>\<open>addOrUpdateExpense\<close> reads the form, the transactions, the two totals and
  \<^verbatim>\<open>editingId\<close> from the state; \<open>now\<close> is the reading of the clock.
\<close>

definition addOrUpdateExpense :: "JSON \<Rightarrow> int \<Rightarrow> world \<Rightarrow> world" where
  "addOrUpdateExpense J now w =
     (let f = form w
      in if date f = [] \<or> description f = [] \<or> category f = [] \<or> amount f = []
            \<or> paymentMethod f = []
         then Alert_alert ''Error'' ''Please fill in all fields.'' w
         else
           let parsedAmount = parseFloat (amount f);
               editing = (case editingId w of None \<Rightarrow> False | Some i \<Rightarrow> i \<noteq> []);
               newExpense =
                 \<lparr>date = date f, description = description f, category = category f,
                  amount = parsedAmount, paymentMethod = paymentMethod f,
                  type = (if type f = [] then ''expense'' else type f),
                  id' = (case editingId w of
                           None \<Rightarrow> toString now
                         | Some i \<Rightarrow> if i = [] then toString now else i)\<rparr>;
               updatedExpenses =
                 (if editing
                  then map (\<lambda>expense. if Some (id' expense) = editingId w then newExpense
                                       else expense)
                         (expenses w)
                  else expenses w @ [newExpense]);
               newBalance =
                 (if type f = ''income'' then js_add (permanentBalance w) parsedAmount
                  else js_sub (permanentBalance w) parsedAmount);
               newTotalIncome =
                 (if type f = ''income'' then js_add (permanentTotalIncome w) parsedAmount
                  else permanentTotalIncome w)
           in case Promise_all
                     [saveExpensesToStorage J updatedExpenses,
                      saveBalanceToStorage J newBalance,
                      saveTotalIncomeToStorage J newTotalIncome] w of
                Inr (_, w1) \<Rightarrow>
                  Alert_alert ''Success''
                    ((if type f = ''income'' then ''Income'' else ''Expense'')
                     @ (if editing then '' updated'' else '' added''))
                    (w1\<lparr>expenses := updatedExpenses,
                        permanentBalance := newBalance,
                        permanentTotalIncome := newTotalIncome,
                        form := empty_form,
                        editingId := None\<rparr>)
              | Inl (error, w1) \<Rightarrow>
                  Alert_alert ''Error'' ''Failed to save transaction''
                    (console_error ''Save error:'' w1))"

definition totalAmount :: "Expense list \<Rightarrow> jsnum" where
  "totalAmount xs = foldl (\<lambda>sum x. js_add sum (amount x)) js_zero xs"

definition totalIncome :: "Expense list \<Rightarrow> jsnum" where
  "totalIncome xs =
     foldl (\<lambda>sum x. js_add sum (amount x)) js_zero (filter (\<lambda>item. type item = ''income'') xs)"

definition totalExpenses :: "Expense list \<Rightarrow> jsnum" where
  "totalExpenses xs =
     foldl (\<lambda>sum x. js_add sum (amount x)) js_zero (filter (\<lambda>item. type item = ''expense'') xs)"

text \<open>\<^verbatim>\<open>resetBalance\<close> shows a dialog with the buttons Cancel and Reset.\<close>

definition resetBalance_onPress :: "JSON \<Rightarrow> world \<Rightarrow> world" where
  "resetBalance_onPress J w =
     (case saveBalanceToStorage J js_zero w of
        Inr (_, w1) \<Rightarrow>
          Alert_alert ''Success'' ''Balance has been reset to 0''
            (w1\<lparr>permanentBalance := js_zero\<rparr>)
      | Inl (error, w1) \<Rightarrow>
          Alert_alert ''Error'' ''Failed to reset balance'' (console_error ''Reset error:'' w1))"

definition resetBalance :: "JSON \<Rightarrow> string \<Rightarrow> world \<Rightarrow> world" where
  "resetBalance J pressed w =
     (let w0 = Alert_alert ''Reset Balance''
                 ''Are you sure you want to reset your current balance to 0?'' w
      in if pressed = ''Reset'' then resetBalance_onPress J w0 else w0)"

section \<open>Scenarios\<close>

text \<open>
  Concrete states for the examples: a store that accepts every operation and one that
  rejects every write, the state of the component when it is mounted, and a JSON library
  that writes every value as the same text and cannot read any text.
\<close>

definition working_storage :: AsyncStorage where
  "working_storage =
     \<lparr>items = Map.empty, getItem_rejects = (\<lambda>k. False), setItem_rejects = (\<lambda>k. False)\<rparr>"

definition readonly_storage :: AsyncStorage where
  "readonly_storage =
     \<lparr>items = Map.empty, getItem_rejects = (\<lambda>k. False), setItem_rejects = (\<lambda>k. True)\<rparr>"

definition initial_world :: world where
  "initial_world =
     \<lparr>form = empty_form, expenses = [], editingId = None, permanentBalance = js_zero,
      permanentTotalIncome = js_zero, storage = working_storage, alerts = [], console = []\<rparr>"

definition sample_JSON :: JSON where
  "sample_JSON = \<lparr>stringify = (\<lambda>v. ''null''), parse = (\<lambda>s. Inl SyntaxError)\<rparr>"

definition salary_form :: Form where
  "salary_form =
     \<lparr>date = ''2024-01-15'', description = ''Pay'', category = ''Salary'', amount = ''1000'',
      paymentMethod = ''Cash'', type = ''income''\<rparr>"

definition salary_expense :: Expense where
  "salary_expense =
     \<lparr>date = ''2024-01-15'', description = ''Pay'', category = ''Salary'',
      amount = Fin 125 3, paymentMethod = ''Cash'', type = ''income'', id' = ''1700000000000''\<rparr>"

definition food_expense :: Expense where
  "food_expense =
     \<lparr>date = ''2024-01-16'', description = ''Lunch'', category = ''Food'',
      amount = Fin 25 3, paymentMethod = ''Cash'', type = ''expense'', id' = ''1700000000500''\<rparr>"

definition raise_form :: Form where
  "raise_form =
     \<lparr>date = ''2024-01-15'', description = ''Pay'', category = ''Salary'', amount = ''1500'',
      paymentMethod = ''Cash'', type = ''income''\<rparr>"

definition refund_form :: Form where
  "refund_form =
     \<lparr>date = ''2024-01-17'', description = ''Refund'', category = ''Other'', amount = ''-5'',
      paymentMethod = ''Cash'', type = ''expense''\<rparr>"

definition no_description_form :: Form where
  "no_description_form =
     \<lparr>date = ''2024-01-17'', description = '''', category = ''Food'', amount = ''200'',
      paymentMethod = ''Cash'', type = ''expense''\<rparr>"

text \<open>
  A state with the transactions and the totals that an income of 1000 and an expense of
  200 leave (scenarios A and B of the specification), and one where the expense has been
  deleted and the income is open for editing with the amount 1500 (scenarios C and D).
\<close>

definition ledger_world :: world where
  "ledger_world =
     initial_world\<lparr>expenses := [salary_expense, food_expense], permanentBalance := Fin 25 5,
       permanentTotalIncome := Fin 125 3\<rparr>"

definition editing_world :: world where
  "editing_world =
     initial_world\<lparr>form := raise_form, expenses := [salary_expense],
       editingId := Some ''1700000000000'', permanentBalance := Fin 25 5,
       permanentTotalIncome := Fin 125 3\<rparr>"

text \<open>
  A store whose transaction list and balance are not JSON and whose third record cannot
  be read.
\<close>

definition corrupt_storage :: AsyncStorage where
  "corrupt_storage =
     \<lparr>items = [STORAGE_KEY \<mapsto> ''[{'', BALANCE_KEY \<mapsto> ''12..5''],
      getItem_rejects = (\<lambda>k. k = TOTAL_INCOME_KEY), setItem_rejects = (\<lambda>k. False)\<rparr>"

text \<open>The initial state with the salary form filled in, over a store that rejects writes.\<close>

definition failing_world :: world where
  "failing_world = initial_world\<lparr>form := salary_form, storage := readonly_storage\<rparr>"

section \<open>The sum of a list of numbers\<close>

text \<open>
  The sum of a sequence of numbers, as the specification's derived totals use it: the
  numbers are added from the first to the last, starting from 0.
\<close>

definition js_sum :: "jsnum list \<Rightarrow> jsnum" where
  "js_sum ns = foldl js_add js_zero ns"

section \<open>Whole numbers\<close>

text \<open>
  The number whose value is the integer \<open>n\<close>; every integer of magnitude up to \<open>2 ^ 53\<close> is a
  binary64 value.
\<close>

definition js_int :: "int \<Rightarrow> jsnum" where
  "js_int n = norm_fin n 0"

section \<open>Lists built by addOrUpdateExpense\<close>

text \<open>
  The transaction that \<^verbatim>\<open>addOrUpdateExpense\<close> builds from the form \<open>f\<close> with the id \<open>i\<close>
  (the object \<^verbatim>\<open>newExpense\<close>).
\<close>

definition form_expense :: "Form \<Rightarrow> string \<Rightarrow> Expense" where
  "form_expense f i =
     \<lparr>date = date f, description = description f, category = category f,
      amount = parseFloat (amount f), paymentMethod = paymentMethod f,
      type = (if type f = [] then ''expense'' else type f), id' = i\<rparr>"

text \<open>
  The transaction lists that are built by \<^verbatim>\<open>addOrUpdateExpense\<close> alone: the empty list, and
  the list it leaves when it is called on a state whose list is built and whose form has the
  type \<^verbatim>\<open>expense\<close> or \<^verbatim>\<open>income\<close>, or none; the rest of the state, the clock and the JSON
  library are arbitrary.
\<close>

inductive built :: "Expense list \<Rightarrow> bool" where
  built_empty: "built []"
| built_step:
    "built (expenses w) \<Longrightarrow>
     type (form w) = [] \<or> type (form w) = ''expense'' \<or> type (form w) = ''income'' \<Longrightarrow>
     built (expenses (addOrUpdateExpense J now w))"

section \<open>More scenarios\<close>

text \<open>Scenarios A and B of the specification, run from the initial state.\<close>

definition lunch_form :: Form where
  "lunch_form =
     \<lparr>date = ''2024-01-16'', description = ''Lunch'', category = ''Food'', amount = ''200'',
      paymentMethod = ''Cash'', type = ''expense''\<rparr>"

definition after_salary :: world where
  "after_salary =
     addOrUpdateExpense sample_JSON 1700000000000 (initial_world\<lparr>form := salary_form\<rparr>)"

definition after_lunch :: world where
  "after_lunch =
     addOrUpdateExpense sample_JSON 1700000000500 (after_salary\<lparr>form := lunch_form\<rparr>)"

text \<open>An income of 0.1 followed by expenses of 0.2 and of 0.3, from the initial state.\<close>

definition tenth_form :: Form where
  "tenth_form =
     \<lparr>date = ''2024-02-01'', description = ''Coin'', category = ''Other'', amount = ''0.1'',
      paymentMethod = ''Cash'', type = ''income''\<rparr>"

definition fifth_form :: Form where
  "fifth_form =
     \<lparr>date = ''2024-02-02'', description = ''Sweet'', category = ''Food'', amount = ''0.2'',
      paymentMethod = ''Cash'', type = ''expense''\<rparr>"

definition three_tenths_form :: Form where
  "three_tenths_form =
     \<lparr>date = ''2024-02-03'', description = ''Stamp'', category = ''Other'', amount = ''0.3'',
      paymentMethod = ''Cash'', type = ''expense''\<rparr>"

definition cents_world_1 :: world where
  "cents_world_1 =
     addOrUpdateExpense sample_JSON 1700000300000 (initial_world\<lparr>form := tenth_form\<rparr>)"

definition cents_world_2 :: world where
  "cents_world_2 =
     addOrUpdateExpense sample_JSON 1700000400000 (cents_world_1\<lparr>form := fifth_form\<rparr>)"

definition cents_world_3 :: world where
  "cents_world_3 =
     addOrUpdateExpense sample_JSON 1700000500000 (cents_world_2\<lparr>form := three_tenths_form\<rparr>)"

section \<open>The save helpers never reject\<close>

lemma saveExpensesToStorage_resolves:
  "saveExpensesToStorage J xs w =
     Inr ((), if setItem_rejects (storage w) STORAGE_KEY
              then console_error ''Failed to save expenses:'' w
              else w\<lparr>storage := (storage w)\<lparr>items := (items (storage w))
                       (STORAGE_KEY \<mapsto> stringify J (JArr (map expense_json xs)))\<rparr>\<rparr>)"
  by (simp add: saveExpensesToStorage_def AsyncStorage_setItem_def)

lemma saveBalanceToStorage_resolves:
  "saveBalanceToStorage J b w =
     Inr ((), if setItem_rejects (storage w) BALANCE_KEY
              then console_error ''Failed to save balance:'' w
              else w\<lparr>storage := (storage w)\<lparr>items := (items (storage w))
                       (BALANCE_KEY \<mapsto> stringify J (JNum b))\<rparr>\<rparr>)"
  by (simp add: saveBalanceToStorage_def AsyncStorage_setItem_def)

lemma saveTotalIncomeToStorage_resolves:
  "saveTotalIncomeToStorage J t w =
     Inr ((), if setItem_rejects (storage w) TOTAL_INCOME_KEY
              then console_error ''Failed to save total income:'' w
              else w\<lparr>storage := (storage w)\<lparr>items := (items (storage w))
                       (TOTAL_INCOME_KEY \<mapsto> stringify J (JNum t))\<rparr>\<rparr>)"
  by (simp add: saveTotalIncomeToStorage_def AsyncStorage_setItem_def)

lemma save_all_resolves:
  "\<exists>w1. Promise_all [saveExpensesToStorage J xs, saveBalanceToStorage J b,
                      saveTotalIncomeToStorage J t] w = Inr ((), w1)
        \<and> form w1 = form w \<and> expenses w1 = expenses w \<and> editingId w1 = editingId w
        \<and> permanentBalance w1 = permanentBalance w
        \<and> permanentTotalIncome w1 = permanentTotalIncome w
        \<and> alerts w1 = alerts w
        \<and> getItem_rejects (storage w1) = getItem_rejects (storage w)
        \<and> setItem_rejects (storage w1) = setItem_rejects (storage w)"
  by (simp add: saveExpensesToStorage_resolves saveBalanceToStorage_resolves
      saveTotalIncomeToStorage_resolves console_error_def)

section \<open>Evaluations used by the examples\<close>

lemma parseFloat_1000: "parseFloat ''1000'' = Fin 125 3"
  by code_simp

lemma toString_sample: "toString 1700000000000 = ''1700000000000''"
  by code_simp

lemma js_add_zero_1000: "js_add js_zero (Fin 125 3) = Fin 125 3"
  by code_simp

section \<open>Adding a transaction\<close>

text \<open>
  Claim C1. When the five required fields of the form are filled in and \<^verbatim>\<open>editingId\<close> is
  \<^verbatim>\<open>null\<close>, \<^verbatim>\<open>addOrUpdateExpense\<close> appends one transaction to the end of the list: it has
  the fields of the form, the parsed amount, and as id the decimal string of the clock
  reading taken at the call. For the type \<^verbatim>\<open>income\<close> the amount is added to the balance
  and to the cumulative income; for any other type it is subtracted from the balance and
  the cumulative income is unchanged.
\<close>

theorem addOrUpdateExpense_create:
  assumes "date (form w) \<noteq> []" and "description (form w) \<noteq> []"
    and "category (form w) \<noteq> []" and "amount (form w) \<noteq> []"
    and "paymentMethod (form w) \<noteq> []" and "editingId w = None"
  shows "expenses (addOrUpdateExpense J now w) =
           expenses w @
           [\<lparr>date = date (form w), description = description (form w),
             category = category (form w), amount = parseFloat (amount (form w)),
             paymentMethod = paymentMethod (form w),
             type = (if type (form w) = [] then ''expense'' else type (form w)),
             id' = toString now\<rparr>]
         \<and> permanentBalance (addOrUpdateExpense J now w) =
             (if type (form w) = ''income''
              then js_add (permanentBalance w) (parseFloat (amount (form w)))
              else js_sub (permanentBalance w) (parseFloat (amount (form w))))
         \<and> permanentTotalIncome (addOrUpdateExpense J now w) =
             (if type (form w) = ''income''
              then js_add (permanentTotalIncome w) (parseFloat (amount (form w)))
              else permanentTotalIncome w)"
proof -
  let ?new = "\<lparr>date = date (form w), description = description (form w),
             category = category (form w), amount = parseFloat (amount (form w)),
             paymentMethod = paymentMethod (form w),
             type = (if type (form w) = [] then ''expense'' else type (form w)),
             id' = toString now\<rparr>"
  let ?b = "(if type (form w) = ''income''
              then js_add (permanentBalance w) (parseFloat (amount (form w)))
              else js_sub (permanentBalance w) (parseFloat (amount (form w))))"
  let ?t = "(if type (form w) = ''income''
              then js_add (permanentTotalIncome w) (parseFloat (amount (form w)))
              else permanentTotalIncome w)"
  obtain w1 where "Promise_all [saveExpensesToStorage J (expenses w @ [?new]),
      saveBalanceToStorage J ?b, saveTotalIncomeToStorage J ?t] w = Inr ((), w1)"
    using save_all_resolves by blast
  with assms show ?thesis
    by (simp add: addOrUpdateExpense_def Let_def Alert_alert_def)
qed

text \<open>Scenario A of the specification: an income of 1000 from the initial state.\<close>

theorem addOrUpdateExpense_create_witness:
  "date (form (initial_world\<lparr>form := salary_form\<rparr>)) \<noteq> []
   \<and> description (form (initial_world\<lparr>form := salary_form\<rparr>)) \<noteq> []
   \<and> category (form (initial_world\<lparr>form := salary_form\<rparr>)) \<noteq> []
   \<and> amount (form (initial_world\<lparr>form := salary_form\<rparr>)) \<noteq> []
   \<and> paymentMethod (form (initial_world\<lparr>form := salary_form\<rparr>)) \<noteq> []
   \<and> editingId (initial_world\<lparr>form := salary_form\<rparr>) = None
   \<and> expenses (addOrUpdateExpense sample_JSON 1700000000000
                  (initial_world\<lparr>form := salary_form\<rparr>)) =
       [\<lparr>date = ''2024-01-15'', description = ''Pay'', category = ''Salary'',
         amount = Fin 125 3, paymentMethod = ''Cash'', type = ''income'',
         id' = ''1700000000000''\<rparr>]
   \<and> permanentBalance (addOrUpdateExpense sample_JSON 1700000000000
                          (initial_world\<lparr>form := salary_form\<rparr>)) = Fin 125 3
   \<and> permanentTotalIncome (addOrUpdateExpense sample_JSON 1700000000000
                              (initial_world\<lparr>form := salary_form\<rparr>)) = Fin 125 3"
  using addOrUpdateExpense_create [of "initial_world\<lparr>form := salary_form\<rparr>"
      sample_JSON 1700000000000]
  by (simp add: initial_world_def salary_form_def parseFloat_1000 toString_sample
      js_add_zero_1000)

section \<open>Updating a transaction\<close>

lemma parseFloat_1500: "parseFloat ''1500'' = Fin 375 2"
  by code_simp

lemma js_add_800_1500: "js_add (Fin 25 5) (Fin 375 2) = Fin 575 2"
  by code_simp

lemma js_add_1000_1500: "js_add (Fin 125 3) (Fin 375 2) = Fin 625 2"
  by code_simp

text \<open>
  Claim C2. When the five required fields are filled in and \<^verbatim>\<open>editingId\<close> is the id of a
  transaction of the list, \<^verbatim>\<open>addOrUpdateExpense\<close> puts the transaction built from the form,
  with that id, at every position whose transaction has the id, and leaves every other
  position as it was: the length and the order of the list are kept. The full new amount
  is applied to the balance (added for the type \<^verbatim>\<open>income\<close>, subtracted otherwise) and, for
  \<^verbatim>\<open>income\<close>, added to the cumulative income; the amount of the replaced transaction is
  not taken back.
\<close>

theorem addOrUpdateExpense_update:
  assumes "date (form w) \<noteq> []" and "description (form w) \<noteq> []"
    and "category (form w) \<noteq> []" and "amount (form w) \<noteq> []"
    and "paymentMethod (form w) \<noteq> []"
    and "editingId w = Some i" and "i \<noteq> []" and "i \<in> id' ` set (expenses w)"
  shows "expenses (addOrUpdateExpense J now w) =
           map (\<lambda>x. if id' x = i
                     then \<lparr>date = date (form w), description = description (form w),
                           category = category (form w),
                           amount = parseFloat (amount (form w)),
                           paymentMethod = paymentMethod (form w),
                           type = (if type (form w) = [] then ''expense'' else type (form w)),
                           id' = i\<rparr>
                     else x)
             (expenses w)
         \<and> length (expenses (addOrUpdateExpense J now w)) = length (expenses w)
         \<and> (\<forall>k < length (expenses w).
               id' (expenses (addOrUpdateExpense J now w) ! k) = id' (expenses w ! k)
               \<and> (id' (expenses w ! k) \<noteq> i \<longrightarrow>
                    expenses (addOrUpdateExpense J now w) ! k = expenses w ! k))
         \<and> permanentBalance (addOrUpdateExpense J now w) =
             (if type (form w) = ''income''
              then js_add (permanentBalance w) (parseFloat (amount (form w)))
              else js_sub (permanentBalance w) (parseFloat (amount (form w))))
         \<and> permanentTotalIncome (addOrUpdateExpense J now w) =
             (if type (form w) = ''income''
              then js_add (permanentTotalIncome w) (parseFloat (amount (form w)))
              else permanentTotalIncome w)"
proof -
  let ?new = "\<lparr>date = date (form w), description = description (form w),
             category = category (form w), amount = parseFloat (amount (form w)),
             paymentMethod = paymentMethod (form w),
             type = (if type (form w) = [] then ''expense'' else type (form w)),
             id' = i\<rparr>"
  let ?xs = "map (\<lambda>x. if Some (id' x) = editingId w then ?new else x) (expenses w)"
  let ?b = "(if type (form w) = ''income''
              then js_add (permanentBalance w) (parseFloat (amount (form w)))
              else js_sub (permanentBalance w) (parseFloat (amount (form w))))"
  let ?t = "(if type (form w) = ''income''
              then js_add (permanentTotalIncome w) (parseFloat (amount (form w)))
              else permanentTotalIncome w)"
  obtain w1 where "Promise_all [saveExpensesToStorage J ?xs,
      saveBalanceToStorage J ?b, saveTotalIncomeToStorage J ?t] w = Inr ((), w1)"
    using save_all_resolves by blast
  with assms show ?thesis
    by (simp add: addOrUpdateExpense_def Let_def Alert_alert_def)
qed

text \<open>
  Scenario D of the specification: with the balance at 800 and the cumulative income at
  1000, the income of 1000 is edited to 1500; the balance becomes 2300 and the cumulative
  income 2500.
\<close>

theorem addOrUpdateExpense_update_witness:
  "date (form editing_world) \<noteq> [] \<and> description (form editing_world) \<noteq> []
   \<and> category (form editing_world) \<noteq> [] \<and> amount (form editing_world) \<noteq> []
   \<and> paymentMethod (form editing_world) \<noteq> []
   \<and> editingId editing_world = Some ''1700000000000''
   \<and> ''1700000000000'' \<in> id' ` set (expenses editing_world)
   \<and> expenses (addOrUpdateExpense sample_JSON 1700000099000 editing_world) =
       [salary_expense\<lparr>amount := Fin 375 2\<rparr>]
   \<and> permanentBalance (addOrUpdateExpense sample_JSON 1700000099000 editing_world) = Fin 575 2
   \<and> permanentTotalIncome (addOrUpdateExpense sample_JSON 1700000099000 editing_world) =
       Fin 625 2"
  using addOrUpdateExpense_update [of editing_world "''1700000000000''" sample_JSON 1700000099000]
  by (simp del: js_add.simps add: editing_world_def initial_world_def raise_form_def
      salary_expense_def parseFloat_1500 js_add_800_1500 js_add_1000_1500)

section \<open>Validation\<close>

lemma parseFloat_minus_5: "parseFloat ''-5'' = Fin (- 5) 0"
  by code_simp

lemma js_sub_zero_minus_5: "js_sub js_zero (Fin (- 5) 0) = Fin 5 0"
  by code_simp

lemma toString_later: "toString 1700000200000 = ''1700000200000''"
  by code_simp

text \<open>
  Claim C3, as the program has it. When one of date, description, category, amount and
  payment method is missing or empty, \<^verbatim>\<open>addOrUpdateExpense\<close> shows the alert
  \<^verbatim>\<open>Please fill in all fields.\<close> and changes nothing else: the transactions, the balance,
  the cumulative income, the store, the form and \<^verbatim>\<open>editingId\<close> are as before. The number
  that the amount parses to is not examined.
\<close>

theorem addOrUpdateExpense_validation:
  assumes "date (form w) = [] \<or> description (form w) = [] \<or> category (form w) = []
           \<or> amount (form w) = [] \<or> paymentMethod (form w) = []"
  shows "alerts (addOrUpdateExpense J now w) =
           alerts w @ [(''Error'', ''Please fill in all fields.'')]
         \<and> expenses (addOrUpdateExpense J now w) = expenses w
         \<and> permanentBalance (addOrUpdateExpense J now w) = permanentBalance w
         \<and> permanentTotalIncome (addOrUpdateExpense J now w) = permanentTotalIncome w
         \<and> storage (addOrUpdateExpense J now w) = storage w
         \<and> form (addOrUpdateExpense J now w) = form w
         \<and> editingId (addOrUpdateExpense J now w) = editingId w"
  using assms by (auto simp add: addOrUpdateExpense_def Let_def Alert_alert_def)

text \<open>Scenario F of the specification: a transaction without a description.\<close>

theorem addOrUpdateExpense_validation_witness:
  "description (form (initial_world\<lparr>form := no_description_form\<rparr>)) = []
   \<and> alerts (addOrUpdateExpense sample_JSON 1700000200000
                (initial_world\<lparr>form := no_description_form\<rparr>)) =
       [(''Error'', ''Please fill in all fields.'')]
   \<and> expenses (addOrUpdateExpense sample_JSON 1700000200000
                  (initial_world\<lparr>form := no_description_form\<rparr>)) = []
   \<and> permanentBalance (addOrUpdateExpense sample_JSON 1700000200000
                          (initial_world\<lparr>form := no_description_form\<rparr>)) = js_zero
   \<and> permanentTotalIncome (addOrUpdateExpense sample_JSON 1700000200000
                              (initial_world\<lparr>form := no_description_form\<rparr>)) = js_zero"
  using addOrUpdateExpense_validation
    [of "initial_world\<lparr>form := no_description_form\<rparr>" sample_JSON 1700000200000]
  by (simp add: initial_world_def no_description_form_def)

text \<open>
  Claim C3 as stated fails for an amount that is filled in but does not parse to a
  positive number: with the amount \<^verbatim>\<open>-5\<close> on an expense, the transaction is stored with the
  amount -5, the balance goes from 0 to 5, and the alert reports success.
\<close>

theorem addOrUpdateExpense_accepts_negative_amount:
  "\<not> finite_positive (parseFloat (amount (form (initial_world\<lparr>form := refund_form\<rparr>))))
   \<and> alerts (addOrUpdateExpense sample_JSON 1700000200000
                (initial_world\<lparr>form := refund_form\<rparr>)) = [(''Success'', ''Expense added'')]
   \<and> expenses (addOrUpdateExpense sample_JSON 1700000200000
                  (initial_world\<lparr>form := refund_form\<rparr>)) =
       [\<lparr>date = ''2024-01-17'', description = ''Refund'', category = ''Other'',
         amount = Fin (- 5) 0, paymentMethod = ''Cash'', type = ''expense'',
         id' = ''1700000200000''\<rparr>]
   \<and> permanentBalance (addOrUpdateExpense sample_JSON 1700000200000
                          (initial_world\<lparr>form := refund_form\<rparr>)) = Fin 5 0"
  by (simp del: js_add.simps
      add: addOrUpdateExpense_def Let_def Alert_alert_def initial_world_def refund_form_def
        parseFloat_minus_5 js_sub_zero_minus_5 toString_later
        saveExpensesToStorage_resolves saveBalanceToStorage_resolves
        saveTotalIncomeToStorage_resolves working_storage_def empty_form_def)

section \<open>Deleting a transaction\<close>

lemma deleteExpense_onPress_eq:
  "deleteExpense_onPress J i w =
     Alert_alert ''Success'' ''Transaction deleted from history''
       ((if setItem_rejects (storage w) STORAGE_KEY
         then console_error ''Failed to save expenses:'' w
         else w\<lparr>storage := (storage w)\<lparr>items := (items (storage w))
                (STORAGE_KEY \<mapsto> stringify J (JArr (map expense_json
                   (filter (\<lambda>x. id' x \<noteq> i) (expenses w)))))\<rparr>\<rparr>)
        \<lparr>expenses := filter (\<lambda>x. id' x \<noteq> i) (expenses w)\<rparr>)"
  by (simp add: deleteExpense_onPress_def Let_def saveExpensesToStorage_resolves)

text \<open>
  Claim C4. After a delete of the id \<open>i\<close> that the user has confirmed, the list is the old
  list without the transactions whose id is \<open>i\<close>, in the old order, so no transaction of
  it has the id \<open>i\<close>; the balance and the cumulative income are as before; and in the store
  only the record of the transaction list can have changed: every other key holds what it
  held, and the list key holds the text of the new list (or, when the store rejects the
  write, what it held).
\<close>

theorem deleteExpense_effect:
  "expenses (deleteExpense J i ''Delete'' w) = filter (\<lambda>x. id' x \<noteq> i) (expenses w)
   \<and> i \<notin> id' ` set (expenses (deleteExpense J i ''Delete'' w))
   \<and> permanentBalance (deleteExpense J i ''Delete'' w) = permanentBalance w
   \<and> permanentTotalIncome (deleteExpense J i ''Delete'' w) = permanentTotalIncome w
   \<and> (\<forall>k. k \<noteq> STORAGE_KEY \<longrightarrow>
          items (storage (deleteExpense J i ''Delete'' w)) k = items (storage w) k)
   \<and> items (storage (deleteExpense J i ''Delete'' w)) STORAGE_KEY =
       (if setItem_rejects (storage w) STORAGE_KEY then items (storage w) STORAGE_KEY
        else Some (stringify J (JArr (map expense_json
               (filter (\<lambda>x. id' x \<noteq> i) (expenses w))))))"
  by (auto simp add: deleteExpense_def deleteExpense_onPress_eq Let_def Alert_alert_def
      console_error_def)

text \<open>
  Scenario C of the specification: the expense of 200 is deleted; the balance stays at 800
  and one transaction is left.
\<close>

theorem deleteExpense_effect_witness:
  "BALANCE_KEY \<noteq> STORAGE_KEY
   \<and> expenses (deleteExpense sample_JSON ''1700000000500'' ''Delete'' ledger_world) =
       [salary_expense]
   \<and> ''1700000000500'' \<notin>
       id' ` set (expenses (deleteExpense sample_JSON ''1700000000500'' ''Delete'' ledger_world))
   \<and> permanentBalance (deleteExpense sample_JSON ''1700000000500'' ''Delete'' ledger_world) =
       Fin 25 5
   \<and> permanentTotalIncome (deleteExpense sample_JSON ''1700000000500'' ''Delete'' ledger_world) =
       Fin 125 3
   \<and> items (storage (deleteExpense sample_JSON ''1700000000500'' ''Delete'' ledger_world))
         BALANCE_KEY = None
   \<and> items (storage (deleteExpense sample_JSON ''1700000000500'' ''Delete'' ledger_world))
         STORAGE_KEY = Some ''null''"
  using deleteExpense_effect [of sample_JSON "''1700000000500''" ledger_world]
  by (simp add: ledger_world_def initial_world_def working_storage_def sample_JSON_def
      salary_expense_def food_expense_def STORAGE_KEY_def BALANCE_KEY_def)

text \<open>
  Claim C5. A confirmed delete of an id that no transaction of the list has leaves the list
  as it was, and the program reports it as a success: after the confirmation dialog the
  one alert it shows is \<^verbatim>\<open>Success\<close>, \<^verbatim>\<open>Transaction deleted from history\<close>.
\<close>

theorem deleteExpense_absent_id:
  assumes "i \<notin> id' ` set (expenses w)"
  shows "expenses (deleteExpense J i ''Delete'' w) = expenses w
         \<and> alerts (deleteExpense J i ''Delete'' w) =
             alerts w
             @ [(''Delete Transaction'',
                 ''Are you sure you want to delete this transaction? The balance will remain unchanged.''),
                (''Success'', ''Transaction deleted from history'')]"
proof -
  from assms have "filter (\<lambda>x. id' x \<noteq> i) (expenses w) = expenses w"
    by (auto simp add: filter_id_conv)
  then show ?thesis
    by (simp add: deleteExpense_def deleteExpense_onPress_eq Let_def Alert_alert_def
        console_error_def)
qed

theorem deleteExpense_absent_id_witness:
  "''42'' \<notin> id' ` set (expenses ledger_world)
   \<and> expenses (deleteExpense sample_JSON ''42'' ''Delete'' ledger_world) =
       [salary_expense, food_expense]
   \<and> alerts (deleteExpense sample_JSON ''42'' ''Delete'' ledger_world) =
       [(''Delete Transaction'',
         ''Are you sure you want to delete this transaction? The balance will remain unchanged.''),
        (''Success'', ''Transaction deleted from history'')]"
  using deleteExpense_absent_id [of "''42''" ledger_world sample_JSON]
  by (simp add: ledger_world_def initial_world_def salary_expense_def food_expense_def)

section \<open>Resetting the balance\<close>

text \<open>
  Claim C6. After a reset that the user has confirmed the balance is 0, whatever it was;
  the transactions and the cumulative income are as before; and in the store only the
  balance record can have changed: every other key holds what it held, and the balance key
  holds the text of 0 (or, when the store rejects the write, what it held).
\<close>

theorem resetBalance_effect:
  "permanentBalance (resetBalance J ''Reset'' w) = js_zero
   \<and> expenses (resetBalance J ''Reset'' w) = expenses w
   \<and> permanentTotalIncome (resetBalance J ''Reset'' w) = permanentTotalIncome w
   \<and> (\<forall>k. k \<noteq> BALANCE_KEY \<longrightarrow>
          items (storage (resetBalance J ''Reset'' w)) k = items (storage w) k)
   \<and> items (storage (resetBalance J ''Reset'' w)) BALANCE_KEY =
       (if setItem_rejects (storage w) BALANCE_KEY then items (storage w) BALANCE_KEY
        else Some (stringify J (JNum js_zero)))"
  by (auto simp add: resetBalance_def resetBalance_onPress_def Let_def Alert_alert_def
      console_error_def saveBalanceToStorage_resolves)

text \<open>Scenario E of the specification: a reset from the balance 800.\<close>

theorem resetBalance_effect_witness:
  "STORAGE_KEY \<noteq> BALANCE_KEY \<and> TOTAL_INCOME_KEY \<noteq> BALANCE_KEY
   \<and> permanentBalance ledger_world = Fin 25 5
   \<and> permanentBalance (resetBalance sample_JSON ''Reset'' ledger_world) = js_zero
   \<and> expenses (resetBalance sample_JSON ''Reset'' ledger_world) = [salary_expense, food_expense]
   \<and> permanentTotalIncome (resetBalance sample_JSON ''Reset'' ledger_world) = Fin 125 3
   \<and> items (storage (resetBalance sample_JSON ''Reset'' ledger_world)) STORAGE_KEY = None
   \<and> items (storage (resetBalance sample_JSON ''Reset'' ledger_world)) TOTAL_INCOME_KEY = None
   \<and> items (storage (resetBalance sample_JSON ''Reset'' ledger_world)) BALANCE_KEY =
       Some ''null''"
  using resetBalance_effect [of sample_JSON ledger_world]
  by (simp add: ledger_world_def initial_world_def working_storage_def sample_JSON_def
      STORAGE_KEY_def BALANCE_KEY_def TOTAL_INCOME_KEY_def)

section \<open>A store that rejects writes\<close>

text \<open>
  Whatever the store does, \<^verbatim>\<open>addOrUpdateExpense\<close> shows exactly one alert, and it is the
  validation error or a success: the alert \<^verbatim>\<open>Failed to save transaction\<close> of its handler
  is never shown.
\<close>

lemma addOrUpdateExpense_alerts:
  "alerts (addOrUpdateExpense J now w) =
     alerts w @
     [if date (form w) = [] \<or> description (form w) = [] \<or> category (form w) = []
         \<or> amount (form w) = [] \<or> paymentMethod (form w) = []
      then (''Error'', ''Please fill in all fields.'')
      else (''Success'',
            (if type (form w) = ''income'' then ''Income'' else ''Expense'')
            @ (if (case editingId w of None \<Rightarrow> False | Some i \<Rightarrow> i \<noteq> [])
               then '' updated'' else '' added''))]"
  by (simp add: addOrUpdateExpense_def Let_def Alert_alert_def
      saveExpensesToStorage_resolves saveBalanceToStorage_resolves
      saveTotalIncomeToStorage_resolves console_error_def)

text \<open>
  Claim C7 at a store that rejects every write, with the salary form filled in. Each save
  helper catches the rejection and writes a line to the console, so the handler of
  \<^verbatim>\<open>addOrUpdateExpense\<close> that would show \<^verbatim>\<open>Failed to save transaction\<close> is not reached: the
  transaction is appended, the balance and the cumulative income become 1000, nothing is
  stored, and the alert is \<^verbatim>\<open>Success\<close>, \<^verbatim>\<open>Income added\<close>.
\<close>

theorem addOrUpdateExpense_storage_failure:
  "setItem_rejects (storage failing_world) STORAGE_KEY
   \<and> setItem_rejects (storage failing_world) BALANCE_KEY
   \<and> setItem_rejects (storage failing_world) TOTAL_INCOME_KEY
   \<and> alerts (addOrUpdateExpense sample_JSON 1700000000000 failing_world) =
       [(''Success'', ''Income added'')]
   \<and> console (addOrUpdateExpense sample_JSON 1700000000000 failing_world) =
       [''Failed to save expenses:'', ''Failed to save balance:'',
        ''Failed to save total income:'']
   \<and> expenses (addOrUpdateExpense sample_JSON 1700000000000 failing_world) = [salary_expense]
   \<and> permanentBalance (addOrUpdateExpense sample_JSON 1700000000000 failing_world) = Fin 125 3
   \<and> permanentTotalIncome (addOrUpdateExpense sample_JSON 1700000000000 failing_world) =
       Fin 125 3
   \<and> items (storage (addOrUpdateExpense sample_JSON 1700000000000 failing_world)) STORAGE_KEY =
       None"
  by (simp del: js_add.simps
      add: addOrUpdateExpense_def Let_def Alert_alert_def console_error_def failing_world_def
        initial_world_def salary_form_def salary_expense_def readonly_storage_def
        parseFloat_1000 js_add_zero_1000 toString_sample
        saveExpensesToStorage_resolves saveBalanceToStorage_resolves
        saveTotalIncomeToStorage_resolves empty_form_def)

section \<open>Loading\<close>

text \<open>
  Claim C8. Each of the three load helpers resolves with a value, whatever the store and
  the JSON library do: none of them rejects. When the read of its key is rejected, or the
  key is absent, or the stored text is empty or makes \<^verbatim>\<open>JSON.parse\<close> throw, the value is
  the default: the empty array for the transaction list, 0 for the balance and 0 for the
  cumulative income.
\<close>

theorem load_never_raises:
  "(\<exists>v w1. loadExpensesFromStorage J w = Inr (v, w1))
   \<and> (\<exists>v w1. loadBalanceFromStorage J w = Inr (v, w1))
   \<and> (\<exists>v w1. loadTotalIncomeFromStorage J w = Inr (v, w1))
   \<and> ((getItem_rejects (storage w) STORAGE_KEY
        \<or> (case items (storage w) STORAGE_KEY of
              None \<Rightarrow> True | Some s \<Rightarrow> s = [] \<or> isl (parse J s)))
       \<longrightarrow> (\<exists>w1. loadExpensesFromStorage J w = Inr (JArr [], w1)))
   \<and> ((getItem_rejects (storage w) BALANCE_KEY
        \<or> (case items (storage w) BALANCE_KEY of
              None \<Rightarrow> True | Some s \<Rightarrow> s = [] \<or> isl (parse J s)))
       \<longrightarrow> (\<exists>w1. loadBalanceFromStorage J w = Inr (JNum js_zero, w1)))
   \<and> ((getItem_rejects (storage w) TOTAL_INCOME_KEY
        \<or> (case items (storage w) TOTAL_INCOME_KEY of
              None \<Rightarrow> True | Some s \<Rightarrow> s = [] \<or> isl (parse J s)))
       \<longrightarrow> (\<exists>w1. loadTotalIncomeFromStorage J w = Inr (JNum js_zero, w1)))"
  by (auto simp add: loadExpensesFromStorage_def loadBalanceFromStorage_def
      loadTotalIncomeFromStorage_def AsyncStorage_getItem_def isl_def
      split: option.splits sum.splits)

text \<open>
  A transaction list that is not JSON, a cumulative income whose read is rejected, and a
  balance that is absent.
\<close>

theorem load_never_raises_witness:
  "isl (parse sample_JSON ''[{'')
   \<and> items (storage (initial_world\<lparr>storage := corrupt_storage\<rparr>)) STORAGE_KEY = Some ''[{''
   \<and> getItem_rejects (storage (initial_world\<lparr>storage := corrupt_storage\<rparr>)) TOTAL_INCOME_KEY
   \<and> items (storage initial_world) BALANCE_KEY = None
   \<and> (\<exists>w1. loadExpensesFromStorage sample_JSON (initial_world\<lparr>storage := corrupt_storage\<rparr>)
             = Inr (JArr [], w1))
   \<and> (\<exists>w1. loadTotalIncomeFromStorage sample_JSON
               (initial_world\<lparr>storage := corrupt_storage\<rparr>) = Inr (JNum js_zero, w1))
   \<and> (\<exists>w1. loadBalanceFromStorage sample_JSON initial_world = Inr (JNum js_zero, w1))"
  using load_never_raises [of sample_JSON "initial_world\<lparr>storage := corrupt_storage\<rparr>"]
    load_never_raises [of sample_JSON initial_world]
  by (simp add: initial_world_def corrupt_storage_def working_storage_def sample_JSON_def
      STORAGE_KEY_def BALANCE_KEY_def TOTAL_INCOME_KEY_def)

section \<open>Derived totals\<close>

lemma totals_sample:
  "js_add js_zero (Fin 25 3) = Fin 25 3" "js_add (Fin 125 3) (Fin 25 3) = Fin 75 4"
  by code_simp+

text \<open>
  Claim C9. The three totals are functions of the transaction list alone: \<open>totalIncome\<close> is
  the sum of the amounts of the transactions whose type is \<^verbatim>\<open>income\<close>, \<open>totalExpenses\<close> the
  sum of the amounts of those whose type is \<^verbatim>\<open>expense\<close>, and \<open>totalAmount\<close> the sum of all
  amounts, each sum taken in the order of the list.
\<close>

theorem derived_totals:
  "totalIncome xs = js_sum [amount x. x \<leftarrow> xs, type x = ''income'']
   \<and> totalExpenses xs = js_sum [amount x. x \<leftarrow> xs, type x = ''expense'']
   \<and> totalAmount xs = js_sum [amount x. x \<leftarrow> xs]"
proof -
  have fold_amounts: "foldl (\<lambda>sum x. js_add sum (amount x)) a ys = foldl js_add a (map amount ys)"
    for a and ys :: "Expense list"
    by (induction ys arbitrary: a) simp_all
  have comprehension: "[amount x. x \<leftarrow> ys, P x] = map amount (filter P ys)"
    for P and ys :: "Expense list"
    by (induction ys) simp_all
  show ?thesis
    by (simp add: totalIncome_def totalExpenses_def totalAmount_def js_sum_def fold_amounts
        comprehension)
qed

text \<open>The income of 1000 and the expense of 200: the totals are 1000, 200 and 1200.\<close>

theorem derived_totals_witness:
  "totalIncome [salary_expense, food_expense] = Fin 125 3
   \<and> totalExpenses [salary_expense, food_expense] = Fin 25 3
   \<and> totalAmount [salary_expense, food_expense] = Fin 75 4"
  using derived_totals [of "[salary_expense, food_expense]"]
  by (simp del: js_add.simps add: js_sum_def salary_expense_def food_expense_def
      js_add_zero_1000 totals_sample)

section \<open>Whole numbers add exactly\<close>

text \<open>
  An integer below \<open>2 ^ 53\<close> needs no rounding, so the sum of two non-negative whole numbers
  whose total is below \<open>2 ^ 53\<close> is the whole number of their total.
\<close>

lemma bit_length_nonneg: "0 \<le> bit_length n"
proof (induction n rule: bit_length.induct)
  case (1 n)
  then show ?case
    by (subst bit_length.simps) simp
qed

lemma bit_length_pos:
  assumes "0 < n"
  shows "1 \<le> bit_length n"
proof -
  have "bit_length n = 1 + bit_length (n div 2)"
    using assms by (subst bit_length.simps) simp
  with bit_length_nonneg [of "n div 2"] show ?thesis
    by simp
qed

lemma bit_length_bounds:
  "0 < n \<Longrightarrow> 2 ^ nat (bit_length n - 1) \<le> n \<and> n < 2 ^ nat (bit_length n)"
proof (induction n rule: bit_length.induct)
  case (1 n)
  show ?case
  proof (cases "n = 1")
    case True
    have "bit_length 1 = 1"
      by (simp add: bit_length.simps [of 1] bit_length.simps [of 0])
    with True show ?thesis by simp
  next
    case False
    with "1.prems" have half: "0 < n div 2" by simp
    from "1.IH" "1.prems" half
    have ih: "2 ^ nat (bit_length (n div 2) - 1) \<le> n div 2"
      "n div 2 < 2 ^ nat (bit_length (n div 2))"
      by simp_all
    have pos: "1 \<le> bit_length (n div 2)"
      using half by (rule bit_length_pos)
    have eq: "bit_length n = 1 + bit_length (n div 2)"
      using "1.prems" by (subst bit_length.simps) simp
    have e1: "nat (bit_length n - 1) = Suc (nat (bit_length (n div 2) - 1))"
      using pos eq by simp
    have e2: "nat (bit_length n) = Suc (nat (bit_length (n div 2)))"
      using pos eq by simp
    from ih show ?thesis
      unfolding e1 e2 by simp linarith
  qed
qed

lemma bit_length_le: "0 < n \<Longrightarrow> n < 2 ^ k \<Longrightarrow> bit_length n \<le> int k"
proof -
  assume n: "0 < n" and lt: "n < 2 ^ k"
  from bit_length_bounds [OF n] have "(2::int) ^ nat (bit_length n - 1) \<le> n" by simp
  with lt have "(2::int) ^ nat (bit_length n - 1) < 2 ^ k" by linarith
  then have "nat (bit_length n - 1) < k" by simp
  then show ?thesis by linarith
qed

lemma norm_fin_scale: "norm_fin (m * 2 ^ k) e = norm_fin m (e + int k)"
proof (induction k arbitrary: e)
  case 0
  show ?case by simp
next
  case (Suc k)
  show ?case
  proof (cases "m = 0")
    case True
    then show ?thesis by (simp add: norm_fin.simps [of 0])
  next
    case False
    have "norm_fin (m * 2 ^ Suc k) e = norm_fin (m * 2 ^ k) (e + 1)"
      using False by (subst norm_fin.simps) simp
    also have "\<dots> = norm_fin m (e + 1 + int k)" by (rule Suc.IH)
    finally show ?thesis by (simp add: add.assoc)
  qed
qed

lemma norm_fin_cases:
  "\<exists>m' k. norm_fin m e = Fin m' (if m = 0 then 0 else e + int k) \<and> m = m' * 2 ^ k"
proof (induction m e rule: norm_fin.induct)
  case (1 m e)
  show ?case
  proof (cases "m = 0")
    case True
    then show ?thesis by (simp add: norm_fin.simps [of 0])
  next
    case nz: False
    show ?thesis
    proof (cases "even m")
      case True
      with nz have half: "m div 2 \<noteq> 0" by auto
      from "1.IH" nz True half obtain m' k
        where "norm_fin (m div 2) (e + 1) = Fin m' (e + 1 + int k)" "m div 2 = m' * 2 ^ k"
        by auto
      moreover have "norm_fin m e = norm_fin (m div 2) (e + 1)"
        using nz True by (subst norm_fin.simps) simp
      moreover have "m = 2 * (m div 2)" using True by auto
      ultimately have "norm_fin m e = Fin m' (e + int (Suc k)) \<and> m = m' * 2 ^ Suc k"
        by simp
      with nz show ?thesis by metis
    next
      case False
      then have "norm_fin m e = Fin m (e + int 0) \<and> m = m * 2 ^ 0"
        using nz by (subst norm_fin.simps) simp
      with nz show ?thesis by metis
    qed
  qed
qed

lemma round_ratio_int:
  assumes "0 \<le> p" and "p < 2 ^ 53"
  shows "round_ratio False p 1 = norm_fin p 0"
proof (cases "p = 0")
  case True
  then show ?thesis by (simp add: round_ratio_def norm_fin.simps [of 0])
next
  case False
  with assms have pos: "0 < p" by simp
  define b where "b = bit_length p"
  have b1: "1 \<le> b" unfolding b_def using pos by (rule bit_length_pos)
  have b53: "b \<le> 53" unfolding b_def using bit_length_le [OF pos assms(2)] by simp
  have lo: "2 ^ nat (b - 1) \<le> p" and hi: "p < 2 ^ nat b"
    unfolding b_def using bit_length_bounds [OF pos] by simp_all
  have one: "bit_length 1 = 1"
    by (simp add: bit_length.simps [of 1] bit_length.simps [of 0])
  define k where "k = nat (53 - b)"
  have npos: "0 < p * 2 ^ k" using pos by simp
  have "p * 2 ^ k < 2 ^ nat b * 2 ^ k" using hi by simp
  also have "\<dots> = 2 ^ (nat b + k)" by (simp add: power_add)
  also have "nat b + k = 53" using b1 b53 by (simp add: k_def)
  finally have nlt: "p * 2 ^ k < 2 ^ 53" .
  have bn: "bit_length (p * 2 ^ k) \<le> 53"
    using bit_length_le [OF npos nlt] by simp
  show ?thesis
  proof (cases "b = 53")
    case True
    then have k0: "k = 0" by (simp add: k_def)
    from True lo bn k0 False show ?thesis
      by (simp add: round_ratio_def Let_def one flip: b_def)
  next
    case nb: False
    with b53 have blt: "b < 53" by simp
    have kk: "nat (52 - (b - 1)) = k" by (simp add: k_def)
    have kk': "nat (53 - b) = k" by (simp add: k_def)
    have s: "b - 1 - 52 = - int k" using blt b1 by (simp add: k_def)
    have mx: "max (- int k) (- 1074) = - int k" using b1 by (simp add: k_def)
    have kpos: "0 < k" using blt by (simp add: k_def)
    have fits: "\<not> 1024 < bit_length (p * 2 ^ k) + - int k" using bn by simp
    have "norm_fin (p * 2 ^ k) (- int k) = norm_fin p 0"
      by (simp add: norm_fin_scale)
    with blt b1 lo fits False kpos show ?thesis
      by (simp add: round_ratio_def Let_def one s mx flip: b_def)
  qed
qed

lemma js_int_repr:
  assumes "0 \<le> a"
  shows "\<exists>m e. js_int a = Fin m e \<and> 0 \<le> e \<and> 0 \<le> m \<and> a = m * 2 ^ nat e"
proof -
  obtain m k where nf: "norm_fin a 0 = Fin m (if a = 0 then 0 else 0 + int k)"
    and a: "a = m * 2 ^ k"
    using norm_fin_cases [of a 0] by blast
  have m0: "0 \<le> m"
    using assms a by (simp add: zero_le_mult_iff)
  show ?thesis
  proof (cases "a = 0")
    case True
    with a have "m = 0" by simp
    with True nf show ?thesis by (simp add: js_int_def)
  next
    case False
    with nf a m0 show ?thesis by (simp add: js_int_def)
  qed
qed

lemma js_add_js_int:
  assumes "0 \<le> a" and "0 \<le> b" and "a + b < 2 ^ 53"
  shows "js_add (js_int a) (js_int b) = js_int (a + b)"
proof -
  obtain m1 e1 where r1: "js_int a = Fin m1 e1" "0 \<le> e1" "0 \<le> m1" "a = m1 * 2 ^ nat e1"
    using js_int_repr [OF assms(1)] by blast
  obtain m2 e2 where r2: "js_int b = Fin m2 e2" "0 \<le> e2" "0 \<le> m2" "b = m2 * 2 ^ nat e2"
    using js_int_repr [OF assms(2)] by blast
  define e where "e = min e1 e2"
  define M where "M = m1 * 2 ^ nat (e1 - e) + m2 * 2 ^ nat (e2 - e)"
  have e0: "0 \<le> e" and le1: "e \<le> e1" and le2: "e \<le> e2"
    using r1(2) r2(2) by (simp_all add: e_def)
  have M0: "0 \<le> M" using r1(3) r2(3) by (simp add: M_def)
  have x1: "nat (e1 - e) + nat e = nat e1" using e0 le1 by simp
  have x2: "nat (e2 - e) + nat e = nat e2" using e0 le2 by simp
  have "M * 2 ^ nat e = m1 * (2 ^ nat (e1 - e) * 2 ^ nat e) + m2 * (2 ^ nat (e2 - e) * 2 ^ nat e)"
    by (simp add: M_def algebra_simps)
  also have "\<dots> = m1 * 2 ^ nat e1 + m2 * 2 ^ nat e2"
    by (simp add: x1 x2 flip: power_add)
  finally have sum: "M * 2 ^ nat e = a + b" using r1(4) r2(4) by simp
  have "js_add (js_int a) (js_int b) = fin_round M e"
    by (simp add: r1(1) r2(1) Let_def M_def e_def)
  also have "\<dots> = round_ratio False (a + b) 1"
    using M0 e0 sum by (simp add: fin_round_def)
  also have "\<dots> = norm_fin (a + b) 0"
    using assms by (intro round_ratio_int) simp_all
  finally show ?thesis by (simp add: js_int_def)
qed

lemma js_zero_js_int: "js_zero = js_int 0"
  by (simp add: js_zero_def js_int_def norm_fin.simps [of 0])

lemma foldl_js_int:
  assumes "\<forall>x \<in> set ys. amount x = js_int (v x) \<and> 0 \<le> v x"
    and "0 \<le> a" and "a + sum_list (map v ys) < 2 ^ 53"
  shows "foldl (\<lambda>sum x. js_add sum (amount x)) (js_int a) ys = js_int (a + sum_list (map v ys))"
  using assms
proof (induction ys arbitrary: a)
  case Nil
  then show ?case by simp
next
  case (Cons y ys)
  have nonneg: "0 \<le> sum_list (map v ys)"
    using Cons.prems(1) by (intro sum_list_nonneg) auto
  have y: "amount y = js_int (v y)" "0 \<le> v y"
    using Cons.prems(1) by simp_all
  have step: "js_add (js_int a) (js_int (v y)) = js_int (a + v y)"
    using Cons.prems(2,3) y(2) nonneg by (intro js_add_js_int) simp_all
  have "foldl (\<lambda>sum x. js_add sum (amount x)) (js_int (a + v y)) ys =
          js_int (a + v y + sum_list (map v ys))"
    using Cons.prems y(2) by (intro Cons.IH) (simp_all add: add.assoc)
  then show ?case
    by (simp del: js_add.simps add: y(1) step add.assoc)
qed

lemma sum_list_filter_le:
  fixes v :: "'a \<Rightarrow> int"
  assumes "\<forall>x \<in> set ys. 0 \<le> v x"
  shows "sum_list (map v (filter P ys)) \<le> sum_list (map v ys)"
  using assms by (induction ys) auto

lemma sum_list_partition:
  fixes v :: "'a \<Rightarrow> int"
  assumes "\<forall>x \<in> set ys. P x \<noteq> Q x"
  shows "sum_list (map v ys) = sum_list (map v (filter P ys)) + sum_list (map v (filter Q ys))"
  using assms by (induction ys) auto

lemma totals_exact:
  assumes types: "\<forall>x \<in> set xs. type x = ''expense'' \<or> type x = ''income''"
    and ints: "\<forall>x \<in> set xs. amount x = js_int (v x) \<and> 0 \<le> v x"
    and small: "sum_list (map v xs) < 2 ^ 53"
  shows "totalAmount xs = js_add (totalIncome xs) (totalExpenses xs)"
proof -
  let ?inc = "filter (\<lambda>item. type item = ''income'') xs"
  let ?exp = "filter (\<lambda>item. type item = ''expense'') xs"
  have nn: "\<forall>x \<in> set xs. 0 \<le> v x" using ints by simp
  have inc_le: "sum_list (map v ?inc) \<le> sum_list (map v xs)"
    and exp_le: "sum_list (map v ?exp) \<le> sum_list (map v xs)"
    using nn by (simp_all add: sum_list_filter_le)
  have inc0: "0 \<le> sum_list (map v ?inc)" and exp0: "0 \<le> sum_list (map v ?exp)"
    using nn by (auto intro!: sum_list_nonneg)
  have part: "sum_list (map v xs) = sum_list (map v ?inc) + sum_list (map v ?exp)"
    using types by (intro sum_list_partition) auto
  have all: "totalAmount xs = js_int (sum_list (map v xs))"
    using foldl_js_int [of xs v 0] ints small by (simp add: totalAmount_def js_zero_js_int)
  have inc: "totalIncome xs = js_int (sum_list (map v ?inc))"
    using foldl_js_int [of ?inc v 0] ints small inc_le
    by (simp add: totalIncome_def js_zero_js_int)
  have exp: "totalExpenses xs = js_int (sum_list (map v ?exp))"
    using foldl_js_int [of ?exp v 0] ints small exp_le
    by (simp add: totalExpenses_def js_zero_js_int)
  have "js_add (totalIncome xs) (totalExpenses xs) =
          js_int (sum_list (map v ?inc) + sum_list (map v ?exp))"
    unfolding inc exp using inc0 exp0 part small by (intro js_add_js_int) simp_all
  with all part show ?thesis by simp
qed

section \<open>The types of the transactions in a built list\<close>

lemma addOrUpdateExpense_result:
  "expenses (addOrUpdateExpense J now w) =
     (if date (form w) = [] \<or> description (form w) = [] \<or> category (form w) = []
         \<or> amount (form w) = [] \<or> paymentMethod (form w) = []
      then expenses w
      else case editingId w of
             None \<Rightarrow> expenses w @ [form_expense (form w) (toString now)]
           | Some i \<Rightarrow>
               if i = [] then expenses w @ [form_expense (form w) (toString now)]
               else map (\<lambda>x. if id' x = i then form_expense (form w) i else x) (expenses w))
   \<and> editingId (addOrUpdateExpense J now w) =
       (if date (form w) = [] \<or> description (form w) = [] \<or> category (form w) = []
           \<or> amount (form w) = [] \<or> paymentMethod (form w) = []
        then editingId w else None)"
proof (cases "date (form w) = [] \<or> description (form w) = [] \<or> category (form w) = []
         \<or> amount (form w) = [] \<or> paymentMethod (form w) = []")
  case True
  then show ?thesis
    by (auto simp add: addOrUpdateExpense_def Let_def Alert_alert_def)
next
  case False
  then show ?thesis
    by (simp add: addOrUpdateExpense_def Let_def Alert_alert_def form_expense_def
        saveExpensesToStorage_resolves saveBalanceToStorage_resolves
        saveTotalIncomeToStorage_resolves console_error_def
        split: option.splits)
qed

lemma form_expense_type:
  assumes "type f = [] \<or> type f = ''expense'' \<or> type f = ''income''"
  shows "type (form_expense f i) = ''expense'' \<or> type (form_expense f i) = ''income''"
  using assms by (auto simp add: form_expense_def)

lemma addOrUpdateExpense_types:
  assumes "type (form w) = [] \<or> type (form w) = ''expense'' \<or> type (form w) = ''income''"
    and "x \<in> set (expenses (addOrUpdateExpense J now w))"
  shows "x \<in> set (expenses w) \<or> type x = ''expense'' \<or> type x = ''income''"
proof -
  note ft = form_expense_type [OF assms(1)]
  from assms(2) show ?thesis
    unfolding addOrUpdateExpense_result [THEN conjunct1]
    using ft by (auto split: if_splits option.splits)
qed

lemma built_types:
  assumes "built xs"
  shows "\<forall>x \<in> set xs. type x = ''expense'' \<or> type x = ''income''"
  using assms
proof (induction rule: built.induct)
  case built_empty
  show ?case by simp
next
  case (built_step w J now)
  show ?case
  proof
    fix x
    assume "x \<in> set (expenses (addOrUpdateExpense J now w))"
    with built_step.hyps(2)
    have "x \<in> set (expenses w) \<or> type x = ''expense'' \<or> type x = ''income''"
      by (rule addOrUpdateExpense_types)
    with built_step.IH show "type x = ''expense'' \<or> type x = ''income''"
      by blast
  qed
qed

lemma amounts_partition:
  assumes "\<forall>x \<in> set xs. type x = ''expense'' \<or> type x = ''income''"
  shows "mset (map amount xs) =
           mset (map amount (filter (\<lambda>item. type item = ''income'') xs))
           + mset (map amount (filter (\<lambda>item. type item = ''expense'') xs))"
  using assms by (induction xs) auto

text \<open>
  Claim C10, as the program has it. When the type of the form is \<^verbatim>\<open>expense\<close>, \<^verbatim>\<open>income\<close>,
  missing or empty, every transaction that \<^verbatim>\<open>addOrUpdateExpense\<close> writes to the list has the
  type \<^verbatim>\<open>expense\<close> or \<^verbatim>\<open>income\<close> (a missing or empty type becomes \<^verbatim>\<open>expense\<close>). So in
  a list built by such calls alone every transaction has one of the two types, and the
  amounts that \<open>totalAmount\<close> sums are those that \<open>totalIncome\<close> sums together with those
  that \<open>totalExpenses\<close> sums, each transaction counted once. The equation
  \<open>totalAmount = totalIncome + totalExpenses\<close> holds when the amounts are non-negative
  whole numbers with a total below \<open>2 ^ 53\<close>, where no addition rounds.
\<close>

theorem built_types_and_totals:
  "(type (form w) = [] \<or> type (form w) = ''expense'' \<or> type (form w) = ''income'' \<longrightarrow>
      (\<forall>x \<in> set (expenses (addOrUpdateExpense J now w)).
         x \<in> set (expenses w) \<or> type x = ''expense'' \<or> type x = ''income''))
   \<and> (built xs \<longrightarrow>
        (\<forall>x \<in> set xs. type x = ''expense'' \<or> type x = ''income'')
        \<and> mset (map amount xs) =
            mset (map amount (filter (\<lambda>item. type item = ''income'') xs))
            + mset (map amount (filter (\<lambda>item. type item = ''expense'') xs))
        \<and> ((\<forall>x \<in> set xs. amount x = js_int (v x) \<and> 0 \<le> v x)
             \<and> sum_list (map v xs) < 2 ^ 53 \<longrightarrow>
            totalAmount xs = js_add (totalIncome xs) (totalExpenses xs)))"
proof (intro conjI impI ballI)
  fix x
  assume "type (form w) = [] \<or> type (form w) = ''expense'' \<or> type (form w) = ''income''"
    and "x \<in> set (expenses (addOrUpdateExpense J now w))"
  then show "x \<in> set (expenses w) \<or> type x = ''expense'' \<or> type x = ''income''"
    by (rule addOrUpdateExpense_types)
next
  fix x
  assume "built xs" and "x \<in> set xs"
  then show "type x = ''expense'' \<or> type x = ''income''"
    using built_types by blast
next
  assume "built xs"
  then show "mset (map amount xs) =
            mset (map amount (filter (\<lambda>item. type item = ''income'') xs))
            + mset (map amount (filter (\<lambda>item. type item = ''expense'') xs))"
    by (intro amounts_partition built_types)
next
  assume "built xs"
    and "(\<forall>x \<in> set xs. amount x = js_int (v x) \<and> 0 \<le> v x) \<and> sum_list (map v xs) < 2 ^ 53"
  then show "totalAmount xs = js_add (totalIncome xs) (totalExpenses xs)"
    using totals_exact [of xs v] built_types [of xs] by blast
qed

lemma parseFloat_200: "parseFloat ''200'' = Fin 25 3"
  by code_simp

lemma toString_lunch: "toString 1700000000500 = ''1700000000500''"
  by code_simp

lemma js_int_sample: "js_int 1000 = Fin 125 3" "js_int 200 = Fin 25 3"
  unfolding js_int_def by code_simp+

lemma after_salary_expenses:
  "expenses after_salary = [salary_expense]" "editingId after_salary = None"
  using addOrUpdateExpense_result [of sample_JSON 1700000000000
      "initial_world\<lparr>form := salary_form\<rparr>"]
  by (simp_all add: after_salary_def initial_world_def salary_form_def salary_expense_def
      form_expense_def parseFloat_1000 toString_sample)

lemma after_lunch_expenses: "expenses after_lunch = [salary_expense, food_expense]"
  using addOrUpdateExpense_result [of sample_JSON 1700000000500
      "after_salary\<lparr>form := lunch_form\<rparr>"]
  by (simp add: after_lunch_def after_salary_expenses lunch_form_def food_expense_def
      form_expense_def parseFloat_200 toString_lunch)

lemma after_lunch_built: "built (expenses after_lunch)"
proof -
  have "built (expenses (initial_world\<lparr>form := salary_form\<rparr>))"
    by (simp add: initial_world_def built_empty)
  then have "built (expenses after_salary)"
    unfolding after_salary_def by (rule built_step) (simp add: salary_form_def)
  then have "built (expenses (after_salary\<lparr>form := lunch_form\<rparr>))" by simp
  then show ?thesis
    unfolding after_lunch_def by (rule built_step) (simp add: lunch_form_def)
qed

text \<open>
  Scenarios A and B: the list with the income of 1000 and the expense of 200 is built, and
  its totals are 1200 = 1000 + 200.
\<close>

theorem built_types_and_totals_witness:
  "type (form (initial_world\<lparr>form := salary_form\<rparr>)) = ''income''
   \<and> built (expenses after_lunch)
   \<and> expenses after_lunch = [salary_expense, food_expense]
   \<and> amount salary_expense = js_int 1000 \<and> amount food_expense = js_int 200
   \<and> (1000 + 200 :: int) < 2 ^ 53
   \<and> list_all (\<lambda>x. type x = ''expense'' \<or> type x = ''income'') (expenses after_salary)
   \<and> list_all (\<lambda>x. type x = ''expense'' \<or> type x = ''income'') (expenses after_lunch)
   \<and> totalAmount (expenses after_lunch) =
       js_add (totalIncome (expenses after_lunch)) (totalExpenses (expenses after_lunch))"
proof -
  have b: "built (expenses after_lunch)" by (rule after_lunch_built)
  have ints: "(\<forall>x \<in> set (expenses after_lunch).
                 amount x = js_int (if type x = ''income'' then 1000 else 200)
                 \<and> 0 \<le> (if type x = ''income'' then 1000 else 200 :: int))
              \<and> sum_list (map (\<lambda>x. if type x = ''income'' then 1000 else 200)
                    (expenses after_lunch)) < (2 ^ 53 :: int)"
    by (simp add: after_lunch_expenses salary_expense_def food_expense_def js_int_sample)
  have empty: "expenses (initial_world\<lparr>form := salary_form\<rparr>) = []"
    by (simp add: initial_world_def)
  have income: "type salary_form = ''income''"
    by (simp add: salary_form_def)
  have amounts: "amount salary_expense = js_int 1000 \<and> amount food_expense = js_int 200"
    by (simp add: salary_expense_def food_expense_def js_int_sample)
  from b ints empty income amounts after_lunch_expenses
    built_types_and_totals [of "initial_world\<lparr>form := salary_form\<rparr>" sample_JSON
      1700000000000 "expenses after_lunch" "\<lambda>x. if type x = ''income'' then 1000 else 200"]
  show ?thesis
    by (simp add: after_salary_def list_all_iff)
qed

section \<open>Rounding separates the totals\<close>

lemma cents_parse:
  "parseFloat ''0.1'' = Fin 3602879701896397 (- 55)"
  "parseFloat ''0.2'' = Fin 3602879701896397 (- 54)"
  "parseFloat ''0.3'' = Fin 5404319552844595 (- 54)"
  by code_simp+

lemma cents_ids:
  "toString 1700000300000 = ''1700000300000''"
  "toString 1700000400000 = ''1700000400000''"
  "toString 1700000500000 = ''1700000500000''"
  by code_simp+

lemma cents_sums:
  "js_add js_zero (Fin 3602879701896397 (- 55)) = Fin 3602879701896397 (- 55)"
  "js_add (Fin 3602879701896397 (- 55)) (Fin 3602879701896397 (- 54)) =
     Fin 1351079888211149 (- 52)"
  "js_add (Fin 1351079888211149 (- 52)) (Fin 5404319552844595 (- 54)) =
     Fin 1351079888211149 (- 51)"
  "js_add js_zero (Fin 3602879701896397 (- 54)) = Fin 3602879701896397 (- 54)"
  "js_add (Fin 3602879701896397 (- 54)) (Fin 5404319552844595 (- 54)) = Fin 1 (- 1)"
  "js_add (Fin 3602879701896397 (- 55)) (Fin 1 (- 1)) = Fin 5404319552844595 (- 53)"
  by code_simp+

lemma cents_world_1_expenses:
  "expenses cents_world_1 = [form_expense tenth_form ''1700000300000'']"
  "editingId cents_world_1 = None"
  using addOrUpdateExpense_result [of sample_JSON 1700000300000
      "initial_world\<lparr>form := tenth_form\<rparr>"]
  by (simp_all add: cents_world_1_def initial_world_def tenth_form_def cents_ids)

lemma cents_world_2_expenses:
  "expenses cents_world_2 =
     [form_expense tenth_form ''1700000300000'', form_expense fifth_form ''1700000400000'']"
  "editingId cents_world_2 = None"
  using addOrUpdateExpense_result [of sample_JSON 1700000400000
      "cents_world_1\<lparr>form := fifth_form\<rparr>"]
  by (simp_all add: cents_world_2_def cents_world_1_expenses fifth_form_def cents_ids)

lemma cents_world_3_expenses:
  "expenses cents_world_3 =
     [form_expense tenth_form ''1700000300000'', form_expense fifth_form ''1700000400000'',
      form_expense three_tenths_form ''1700000500000'']"
  using addOrUpdateExpense_result [of sample_JSON 1700000500000
      "cents_world_2\<lparr>form := three_tenths_form\<rparr>"]
  by (simp_all add: cents_world_3_def cents_world_2_expenses three_tenths_form_def cents_ids)

lemma cents_world_3_built: "built (expenses cents_world_3)"
proof -
  have "built (expenses (initial_world\<lparr>form := tenth_form\<rparr>))"
    by (simp add: initial_world_def built_empty)
  then have "built (expenses cents_world_1)"
    unfolding cents_world_1_def by (rule built_step) (simp add: tenth_form_def)
  then have "built (expenses (cents_world_1\<lparr>form := fifth_form\<rparr>))" by simp
  then have "built (expenses cents_world_2)"
    unfolding cents_world_2_def by (rule built_step) (simp add: fifth_form_def)
  then have "built (expenses (cents_world_2\<lparr>form := three_tenths_form\<rparr>))" by simp
  then show ?thesis
    unfolding cents_world_3_def by (rule built_step) (simp add: three_tenths_form_def)
qed

text \<open>
  Claim C10 as stated fails with amounts that are not whole numbers. After an income of 0.1
  and expenses of 0.2 and of 0.3, all added by \<^verbatim>\<open>addOrUpdateExpense\<close> from the initial state,
  \<open>totalAmount\<close> is \<open>(0.1 + 0.2) + 0.3\<close>, the number 0.6000000000000001, while
  \<open>totalIncome + totalExpenses\<close> is \<open>0.1 + (0.2 + 0.3)\<close>, the number 0.6.
\<close>

theorem totals_differ_on_cents:
  "built (expenses cents_world_3)
   \<and> map type (expenses cents_world_3) = [''income'', ''expense'', ''expense'']
   \<and> map amount (expenses cents_world_3) =
       [parseFloat ''0.1'', parseFloat ''0.2'', parseFloat ''0.3'']
   \<and> totalAmount (expenses cents_world_3) = Fin 1351079888211149 (- 51)
   \<and> js_add (totalIncome (expenses cents_world_3)) (totalExpenses (expenses cents_world_3)) =
       Fin 5404319552844595 (- 53)
   \<and> totalAmount (expenses cents_world_3) \<noteq>
       js_add (totalIncome (expenses cents_world_3)) (totalExpenses (expenses cents_world_3))"
proof (rule conjI)
  show "built (expenses cents_world_3)"
    by (rule cents_world_3_built)
  show "map type (expenses cents_world_3) = [''income'', ''expense'', ''expense'']
   \<and> map amount (expenses cents_world_3) =
       [parseFloat ''0.1'', parseFloat ''0.2'', parseFloat ''0.3'']
   \<and> totalAmount (expenses cents_world_3) = Fin 1351079888211149 (- 51)
   \<and> js_add (totalIncome (expenses cents_world_3)) (totalExpenses (expenses cents_world_3)) =
       Fin 5404319552844595 (- 53)
   \<and> totalAmount (expenses cents_world_3) \<noteq>
       js_add (totalIncome (expenses cents_world_3)) (totalExpenses (expenses cents_world_3))"
    by (simp del: js_add.simps
        add: cents_world_3_expenses form_expense_def tenth_form_def
          fifth_form_def three_tenths_form_def totalAmount_def totalIncome_def
          totalExpenses_def cents_parse cents_sums)
qed

end
